theory Spec2Isabelle
  imports Main
begin

section \<open>Callback routing and the external solver query of libsolidity/interface\<close>

text \<open>
  The two source files are \<^verbatim>\<open>SMTSolverCommand.cpp\<close> (the member function
  \<^verbatim>\<open>SMTSolverCommand::solve\<close>) and \<^verbatim>\<open>UniversalCallback.h\<close> (the lambda returned by
  \<^verbatim>\<open>UniversalCallback::callback\<close>). Both are effectful C++: they touch the file system,
  search the executable path, start a child process, read its pipe and throw exceptions.
  The embedding makes each of these explicit:
  \<^item> a C++ exception is a value of type \<open>exn\<close>, and a computation that may throw
    returns \<open>exn + 'a\<close> (\<open>Inl\<close> the exception in flight);
  \<^item> the file system and the sequence of externally visible actions are a \<open>world\<close>
    record that is passed through and returned;
  \<^item> the answers of the operating system and of the libraries the code calls (which
    are not part of the two files) are the fields of an \<open>env\<close> record;
  \<^item> a call that never returns (a blocking read or wait on a child that hangs, a loop
    over an endless output) is the value \<open>None\<close>.

  Running out of memory is not represented, nor is what the destructor of the child
  object does to a child that is still running when \<^verbatim>\<open>solve\<close> is left by an exception.
\<close>

subsection \<open>Data\<close>

type_synonym path = string

text \<open>\<^verbatim>\<open>ReadCallback::Kind\<close>: the closed enumeration of request kinds.\<close>

datatype Kind = ReadFile | SMTQuery

text \<open>\<^verbatim>\<open>ReadCallback::Result\<close>: success flag and payload (response or error message).\<close>

datatype Result = Result (success: bool) (data: string)

text \<open>
  The exceptions the calls made by the two files can throw: \<^verbatim>\<open>InternalCompilerError\<close>
  (what \<^verbatim>\<open>solAssert\<close> throws, carrying its description as \<^verbatim>\<open>errinfo_comment\<close>; both names
  are imported at lines 32 and 33 of \<^verbatim>\<open>SMTSolverCommand.cpp\<close> for the expansion of that
  macro), \<^verbatim>\<open>boost::filesystem::filesystem_error\<close> and \<^verbatim>\<open>boost::process::process_error\<close>.
\<close>

datatype exn =
    InternalCompilerError string
  | filesystem_error string
  | process_error string

text \<open>What the outside world can observe of one call, in order.\<close>

datatype event =
    Search string
      \<comment> \<open>the executable search path was searched for this name\<close>
  | Spawn path "string list" "string option"
      \<comment> \<open>the constructor of a child was called: binary, arguments, and the contents of
          the file named by the last argument as they are on disk at that moment\<close>
  | Reap
      \<comment> \<open>the child was waited for and has been reaped\<close>

record world =
  files :: "path \<rightharpoonup> string"
  trace :: "event list"

text \<open>
  One read from the child's pipe by \<^verbatim>\<open>std::getline\<close>: a line (without its newline), the
  end of the stream (the stream converts to false), or a read that blocks for ever.
\<close>

datatype read = Line string | Eof | Blocked

text \<open>\<^verbatim>\<open>child::wait()\<close>: the child is reaped, the call throws, or it blocks for ever.\<close>

datatype wait_result = Exited | WaitThrows exn | WaitBlocks

text \<open>
  A started child as the parent sees it. \<open>running c k\<close> is the answer of the \<open>k\<close>-th call
  of \<^verbatim>\<open>child::running()\<close> (which may throw), \<open>getline c k\<close> the outcome of the \<open>k\<close>-th call
  of \<^verbatim>\<open>std::getline\<close> on its pipe. The two are independent observations: the operating
  system may report a child as exited while lines it wrote are still in the pipe.
\<close>

record child =
  running :: "nat \<Rightarrow> exn + bool"
  getline :: "nat \<Rightarrow> read"
  wait :: wait_result

text \<open>
  The environment: the declarations and library calls that the two files use and that
  are not part of them.
  \<^item> \<open>kindString\<close>: \<^verbatim>\<open>ReadCallback::kindString\<close>, the canonical identifier of a kind;
  \<^item> \<open>temp_directory_path\<close>: \<^verbatim>\<open>boost::filesystem::temp_directory_path()\<close>, which throws
    when there is no usable temporary directory;
  \<^item> \<open>open_ok\<close>, \<open>write_ok\<close>: whether the operating system lets a path be opened for
    writing, and accepts bytes written to it;
  \<^item> \<open>write_through\<close>: how many of the characters held by a file stream its buffer
    hands to the operating system during an insertion, before any flush (the
    implementation of \<^verbatim>\<open>std::basic_filebuf\<close> decides);
  \<^item> \<open>search_path\<close>: \<^verbatim>\<open>boost::process::search_path\<close>, the empty path when nothing is found;
  \<^item> \<open>launch\<close>: the constructor of \<^verbatim>\<open>boost::process::child\<close>: it throws or starts a
    child, whose behaviour may depend on the files on disk;
  \<^item> \<open>diagnostic_information\<close>: what \<^verbatim>\<open>boost::current_exception_diagnostic_information()\<close>
    returns while the given exception is being handled.
\<close>

record env =
  kindString :: "Kind \<Rightarrow> string"
  temp_directory_path :: "exn + path"
  open_ok :: "path \<Rightarrow> bool"
  write_ok :: "path \<Rightarrow> bool"
  write_through :: "string \<Rightarrow> nat"
  search_path :: "string \<Rightarrow> path"
  launch :: "path \<Rightarrow> string list \<Rightarrow> (path \<rightharpoonup> string) \<Rightarrow> exn + child"
  diagnostic_information :: "exn \<Rightarrow> string"

text \<open>The result of a call: it never returns (\<open>None\<close>), or it throws or returns, in a new world.\<close>

type_synonym 'a outcome = "((exn + 'a) \<times> world) option"

subsection \<open>Library operations used by \<^verbatim>\<open>solve\<close>\<close>

text \<open>\<^verbatim>\<open>solAssert(condition, description)\<close>: throws when the condition is false.\<close>

definition solAssert :: "bool \<Rightarrow> string \<Rightarrow> exn + unit" where
  "solAssert condition description =
     (if condition then Inr () else Inl (InternalCompilerError description))"

text \<open>\<^verbatim>\<open>operator/\<close> of \<^verbatim>\<open>boost::filesystem::path\<close>: a separator is added unless one is there.\<close>

definition path_append :: "path \<Rightarrow> string \<Rightarrow> path" where
  "path_append dir name =
     (if dir = [] \<or> last dir = CHR ''/'' then dir @ name else dir @ ''/'' @ name)"

text \<open>
  An output file stream: the path it was opened on, whether it is still good, and the
  characters inserted that are still in its buffer. No operation on it throws: the
  exception mask of a stream is empty unless \<^verbatim>\<open>exceptions()\<close> is called, and the source
  never calls it.
\<close>

record ofstream =
  os_path :: path
  os_good :: bool
  os_pending :: string

definition append_file :: "path \<Rightarrow> string \<Rightarrow> world \<Rightarrow> world" where
  "append_file p bytes w =
     w\<lparr>files := (files w)(p \<mapsto> (case files w p of None \<Rightarrow> [] | Some old \<Rightarrow> old) @ bytes)\<rparr>"

text \<open>The constructor opens with mode \<^verbatim>\<open>out\<close>, which truncates; a failure sets \<^verbatim>\<open>failbit\<close>.\<close>

definition ofstream_open :: "env \<Rightarrow> path \<Rightarrow> world \<Rightarrow> ofstream \<times> world" where
  "ofstream_open E p w =
     (if open_ok E p
      then (\<lparr>os_path = p, os_good = True, os_pending = []\<rparr>, w\<lparr>files := (files w)(p \<mapsto> [])\<rparr>)
      else (\<lparr>os_path = p, os_good = False, os_pending = []\<rparr>, w))"

text \<open>
  \<^verbatim>\<open>stream << text\<close>: nothing happens on a stream that is not good. Otherwise the text
  joins the buffer, and the buffer hands its first \<open>write_through\<close> characters to the
  operating system; when that write fails the stream goes bad and the characters are lost.
\<close>

definition ofstream_insert :: "env \<Rightarrow> ofstream \<Rightarrow> string \<Rightarrow> world \<Rightarrow> ofstream \<times> world" where
  "ofstream_insert E s text w =
     (if \<not> os_good s then (s, w)
      else
        let buf = os_pending s @ text;
            n = min (write_through E buf) (length buf)
        in if n = 0 then (s\<lparr>os_pending := buf\<rparr>, w)
           else if write_ok E (os_path s)
           then (s\<lparr>os_pending := drop n buf\<rparr>, append_file (os_path s) (take n buf) w)
           else (s\<lparr>os_good := False, os_pending := []\<rparr>, w))"

text \<open>
  The destructor, run when \<^verbatim>\<open>solve\<close> is left by a \<^verbatim>\<open>return\<close> or by an exception: a good
  stream writes what is left in its buffer.
\<close>

definition ofstream_close :: "env \<Rightarrow> ofstream \<Rightarrow> world \<Rightarrow> world" where
  "ofstream_close E s w =
     (if os_good s \<and> os_pending s \<noteq> [] \<and> write_ok E (os_path s)
      then append_file (os_path s) (os_pending s) w
      else w)"

text \<open>
  Lines 52 and 53 of \<^verbatim>\<open>solve\<close>: the stream is constructed on the query file and the
  query is inserted. Nothing is flushed or closed here.
\<close>

definition write_query :: "env \<Rightarrow> path \<Rightarrow> string \<Rightarrow> world \<Rightarrow> ofstream \<times> world" where
  "write_query E queryFileName query w =
     (let opened = ofstream_open E queryFileName w
      in ofstream_insert E (fst opened) query (snd opened))"

text \<open>\<^verbatim>\<open>boost::join(data, separator)\<close>.\<close>

fun join :: "string list \<Rightarrow> string \<Rightarrow> string" where
  "join [] sep = []"
| "join [x] sep = x"
| "join (x # y # ys) sep = x @ sep @ join (y # ys) sep"

definition log_event :: "event \<Rightarrow> world \<Rightarrow> world" where
  "log_event ev w = w\<lparr>trace := trace w @ [ev]\<rparr>"

subsection \<open>\<^verbatim>\<open>SMTSolverCommand\<close>\<close>

record SMTSolverCommand =
  m_solverCmd :: string

text \<open>The constructor (line 40).\<close>

definition new_SMTSolverCommand :: "string \<Rightarrow> SMTSolverCommand" where
  "new_SMTSolverCommand solverCmd = \<lparr>m_solverCmd = solverCmd\<rparr>"

text \<open>
  The reading loop of lines 69 to 73,
  \<^verbatim>\<open>while (eld.running() && std::getline(pipe, line)) if (!line.empty()) data.push_back(line);\<close>
  with \<open>k\<close> the number of iterations done so far. The conjunction is evaluated left to
  right: the pipe is read only when the child has just been seen running.
\<close>

partial_function (option) read_lines :: "child \<Rightarrow> nat \<Rightarrow> string list \<Rightarrow> (exn + string list) option" where
  "read_lines eld k collected =
     (case running eld k of
        Inl e \<Rightarrow> Some (Inl e)
      | Inr alive \<Rightarrow>
          if \<not> alive then Some (Inr collected)
          else (case getline eld k of
                  Blocked \<Rightarrow> None
                | Eof \<Rightarrow> Some (Inr collected)
                | Line line \<Rightarrow>
                    read_lines eld (k + 1) (if line \<noteq> [] then collected @ [line] else collected)))"

declare read_lines.simps [code]

text \<open>
  The body of the \<^verbatim>\<open>try\<close> block (lines 46 to 77). The stream \<^verbatim>\<open>queryFile\<close> is a local
  variable: it is destroyed, and so flushed, only when the function is left.
\<close>

definition solve_try :: "SMTSolverCommand \<Rightarrow> env \<Rightarrow> string \<Rightarrow> string \<Rightarrow> world \<Rightarrow> Result outcome" where
  "solve_try this E kind query w =
     (case (if kind \<noteq> kindString E SMTQuery
            then solAssert False (''SMTQuery callback used as callback kind '' @ kind)
            else Inr ()) of
        Inl e \<Rightarrow> Some (Inl e, w)
      | Inr _ \<Rightarrow>
     (case temp_directory_path E of
        Inl e \<Rightarrow> Some (Inl e, w)
      | Inr tempDir \<Rightarrow>
          let queryFileName = path_append tempDir ''query.smt2'';
              written = write_query E queryFileName query w;
              queryFile = fst written;
              eldBin = search_path E ''eld'';
              w1 = log_event (Search ''eld'') (snd written)
          in (if eldBin = []
              then Some (Inr (Result False ''Eldarica binary not found.''),
                         ofstream_close E queryFile w1)
              else
               (let args = [''-ssol'', ''-scex'', queryFileName];
                    w2 = log_event (Spawn eldBin args (files w1 queryFileName)) w1
                in (case launch E eldBin args (files w1) of
                      Inl e \<Rightarrow> Some (Inl e, ofstream_close E queryFile w2)
                    | Inr eld \<Rightarrow>
                       (case read_lines eld 0 [] of
                          None \<Rightarrow> None
                        | Some (Inl e) \<Rightarrow> Some (Inl e, ofstream_close E queryFile w2)
                        | Some (Inr collected) \<Rightarrow>
                           (case wait eld of
                              WaitBlocks \<Rightarrow> None
                            | WaitThrows e \<Rightarrow> Some (Inl e, ofstream_close E queryFile w2)
                            | Exited \<Rightarrow>
                                Some (Inr (Result True (join collected [CHR 0x0A])),
                                      ofstream_close E queryFile (log_event Reap w2)))))))))"

text \<open>
  \<^verbatim>\<open>SMTSolverCommand::solve\<close> (lines 42 to 83): the \<^verbatim>\<open>try\<close> block and its handler
  \<^verbatim>\<open>catch (...)\<close>, which turns whatever exception left the block into a failed result.
\<close>

definition solve :: "SMTSolverCommand \<Rightarrow> env \<Rightarrow> string \<Rightarrow> string \<Rightarrow> world \<Rightarrow> Result outcome" where
  "solve this E kind query w =
     (case solve_try this E kind query w of
        None \<Rightarrow> None
      | Some (Inl e, w') \<Rightarrow>
          Some (Inr (Result False
                  (''Unknown exception in SMTQuery callback: '' @ diagnostic_information E e)), w')
      | Some (Inr r, w') \<Rightarrow> Some (Inr r, w'))"

text \<open>
  Modelled from the spec: \<^verbatim>\<open>SMTSolverCommand::solver()\<close> is declared in
  \<^verbatim>\<open>SMTSolverCommand.h\<close>, which is not among the sources. The spec says of the dispatcher
  that it "forwards to the Solver Backend's solve operation": the callback that
  \<^verbatim>\<open>solver()\<close> returns calls \<^verbatim>\<open>solve\<close> with the arguments it is given.
\<close>

definition solver :: "SMTSolverCommand \<Rightarrow> env \<Rightarrow> string \<Rightarrow> string \<Rightarrow> world \<Rightarrow> Result outcome" where
  "solver this E = (\<lambda>kind query. solve this E kind query)"

subsection \<open>\<^verbatim>\<open>UniversalCallback\<close>\<close>

text \<open>
  \<^verbatim>\<open>FileReader\<close> is an external collaborator; only its member \<^verbatim>\<open>readFile(kind, path)\<close>
  is used, and it is taken as it comes.
\<close>

record FileReader =
  readFile :: "string \<Rightarrow> string \<Rightarrow> world \<Rightarrow> Result outcome"

record UniversalCallback =
  m_fileReader :: FileReader
  m_solver :: SMTSolverCommand

text \<open>The constructor (lines 29 to 32).\<close>

definition new_UniversalCallback :: "FileReader \<Rightarrow> SMTSolverCommand \<Rightarrow> UniversalCallback" where
  "new_UniversalCallback fileReader solverCommand =
     \<lparr>m_fileReader = fileReader, m_solver = solverCommand\<rparr>"

text \<open>
  The lambda returned by \<^verbatim>\<open>callback()\<close> (lines 36 to 43). There is no handler around
  the final \<^verbatim>\<open>solAssert\<close>: its exception leaves the callback. Control never gets past
  \<^verbatim>\<open>solAssert(false, ...)\<close>, after which the lambda has no \<^verbatim>\<open>return\<close>; that branch is \<open>None\<close>.
\<close>

definition callback :: "UniversalCallback \<Rightarrow> env \<Rightarrow> string \<Rightarrow> string \<Rightarrow> world \<Rightarrow> Result outcome" where
  "callback this E kind payload w =
     (let solver' = solver (m_solver this) E
      in if kind = kindString E ReadFile
         then readFile (m_fileReader this) kind payload w
         else if kind = kindString E SMTQuery
         then solver' kind payload w
         else (case solAssert False ''Unknown callback kind.'' of
                 Inl e \<Rightarrow> Some (Inl e, w)
               | Inr _ \<Rightarrow> None))"

subsection \<open>Predicates on the environment\<close>

text \<open>
  \<open>ends_within c k n\<close>: started at iteration \<open>k\<close>, the reading loop on child \<open>c\<close> is over
  after at most \<open>n\<close> further lines: a liveness check throws or finds the child exited, or
  the stream ends. A read that blocks for ever does not end the loop.
\<close>

fun ends_within :: "child \<Rightarrow> nat \<Rightarrow> nat \<Rightarrow> bool" where
  "ends_within c k 0 =
     (case running c k of
        Inl e \<Rightarrow> True
      | Inr alive \<Rightarrow> \<not> alive \<or> getline c k = Eof)"
| "ends_within c k (Suc n) =
     (case running c k of
        Inl e \<Rightarrow> True
      | Inr alive \<Rightarrow>
          \<not> alive \<or>
          (case getline c k of
             Line l \<Rightarrow> ends_within c (Suc k) n
           | Eof \<Rightarrow> True
           | Blocked \<Rightarrow> False))"

text \<open>A child gives control back: the loop on it ends and waiting for it does not block.\<close>

definition returns_control :: "child \<Rightarrow> bool" where
  "returns_control c \<longleftrightarrow> (\<exists>n. ends_within c 0 n) \<and> wait c \<noteq> WaitBlocks"

definition children_return_control :: "env \<Rightarrow> bool" where
  "children_return_control E \<longleftrightarrow>
     (\<forall>bin args fs c. launch E bin args fs = Inr c \<longrightarrow> returns_control c)"

text \<open>The child writes exactly the lines \<open>ls\<close> to its standard output and closes it.\<close>

definition emits :: "child \<Rightarrow> string list \<Rightarrow> bool" where
  "emits c ls \<longleftrightarrow>
     (\<forall>j<length ls. getline c j = Line (ls ! j)) \<and> getline c (length ls) = Eof"

text \<open>
  The first \<open>n\<close> liveness checks find the child running, and the next one does not throw.
\<close>

definition seen_running :: "child \<Rightarrow> nat \<Rightarrow> bool" where
  "seen_running c n \<longleftrightarrow>
     (\<forall>j<n. running c j = Inr True) \<and> (\<exists>alive. running c n = Inr alive)"

text \<open>
  The result the handler of \<open>solve\<close> is asked to give for an exception: a failure whose
  message is the fixed prefix followed by the diagnostic information of the exception.
\<close>

definition caught :: "env \<Rightarrow> exn \<Rightarrow> Result" where
  "caught E e =
     Result False (''Unknown exception in SMTQuery callback: '' @ diagnostic_information E e)"

text \<open>
  What the child constructor of line 61 does in a call with the given temporary
  directory, query and world: it is given the found binary, the fixed arguments and the
  files as lines 52 and 53 left them.
\<close>

abbreviation started_by :: "env \<Rightarrow> path \<Rightarrow> string \<Rightarrow> world \<Rightarrow> exn + child" where
  "started_by E tempDir query w \<equiv>
     launch E (search_path E ''eld'') [''-ssol'', ''-scex'', path_append tempDir ''query.smt2'']
       (files (snd (write_query E (path_append tempDir ''query.smt2'') query w)))"

text \<open>Each of the first \<open>n\<close> iterations of the loop finds the child running and reads a line.\<close>

abbreviation reads_lines :: "child \<Rightarrow> nat \<Rightarrow> bool" where
  "reads_lines c n \<equiv> (\<forall>j<n. running c j = Inr True \<and> (\<exists>l. getline c j = Line l))"

text \<open>Two calls of \<^verbatim>\<open>solve\<close> one after the other, the second in the world the first left.\<close>

definition solve_twice ::
  "SMTSolverCommand \<Rightarrow> env \<Rightarrow> string \<Rightarrow> string \<Rightarrow> string \<Rightarrow> world
     \<Rightarrow> ((exn + Result) \<times> (exn + Result) \<times> world) option" where
  "solve_twice this E kind query1 query2 w =
     (case solve this E kind query1 w of
        None \<Rightarrow> None
      | Some (r1, w1) \<Rightarrow>
          (case solve this E kind query2 w1 of
             None \<Rightarrow> None
           | Some (r2, w2) \<Rightarrow> Some (r1, r2, w2)))"

subsection \<open>Concrete environments\<close>

text \<open>
  The inputs at which the theorems below are instantiated. The two kinds are given the
  identifiers \<^verbatim>\<open>source\<close> and \<^verbatim>\<open>smt-query\<close>; \<open>linux_env c\<close> is a machine on which everything works:
  \<^verbatim>\<open>/tmp\<close> is writable, \<^verbatim>\<open>eld\<close> is installed, the file buffer keeps an insertion of
  fewer than 1024 characters and passes a longer one straight on, and the child that
  gets started is \<open>c\<close>.
\<close>

definition kind_ids :: "Kind \<Rightarrow> string" where
  "kind_ids k = (case k of ReadFile \<Rightarrow> ''source'' | SMTQuery \<Rightarrow> ''smt-query'')"

definition what :: "exn \<Rightarrow> string" where
  "what e =
     (case e of
        InternalCompilerError m \<Rightarrow> m
      | filesystem_error m \<Rightarrow> m
      | process_error m \<Rightarrow> m)"

text \<open>
  A child that writes the lines \<open>ls\<close> and exits; the parent's first \<open>m\<close> liveness checks
  find it running, the later ones find it gone.
\<close>

definition scripted_child :: "string list \<Rightarrow> nat \<Rightarrow> child" where
  "scripted_child ls m =
     \<lparr>running = (\<lambda>k. Inr (k < m)),
      getline = (\<lambda>k. if k < length ls then Line (ls ! k) else Eof),
      wait = Exited\<rparr>"

text \<open>A child that writes the lines \<open>ls\<close> and then neither writes, closes nor exits.\<close>

definition stalled_child :: "string list \<Rightarrow> child" where
  "stalled_child ls =
     \<lparr>running = (\<lambda>k. Inr True),
      getline = (\<lambda>k. if k < length ls then Line (ls ! k) else Blocked),
      wait = WaitBlocks\<rparr>"

text \<open>A child that writes \<open>ls\<close>, is read to the end, and cannot be waited for.\<close>

definition unreapable_child :: "string list \<Rightarrow> child" where
  "unreapable_child ls =
     (scripted_child ls (length ls))\<lparr>wait := WaitThrows (process_error ''waitpid(2) failed'')\<rparr>"

definition linux_env :: "child \<Rightarrow> env" where
  "linux_env c =
     \<lparr>kindString = kind_ids,
      temp_directory_path = Inr ''/tmp'',
      open_ok = (\<lambda>p. True),
      write_ok = (\<lambda>p. True),
      write_through = (\<lambda>buf. if 1024 \<le> length buf then length buf else 0),
      search_path = (\<lambda>name. if name = ''eld'' then ''/usr/bin/eld'' else []),
      launch = (\<lambda>bin args fs. Inr c),
      diagnostic_information = what\<rparr>"

text \<open>A machine without a usable temporary directory.\<close>

definition without_tmp :: "env \<Rightarrow> env" where
  "without_tmp E =
     E\<lparr>temp_directory_path := Inl (filesystem_error ''temp_directory_path: Not a directory'')\<rparr>"

text \<open>A machine on which no file can be opened for writing.\<close>

definition readonly :: "env \<Rightarrow> env" where
  "readonly E = E\<lparr>open_ok := (\<lambda>p. False)\<rparr>"

text \<open>A machine without the solver on its search path.\<close>

definition without_solver :: "env \<Rightarrow> env" where
  "without_solver E = E\<lparr>search_path := (\<lambda>name. [])\<rparr>"

text \<open>A machine on which no process can be started.\<close>

definition unlaunchable :: "env \<Rightarrow> env" where
  "unlaunchable E = E\<lparr>launch := (\<lambda>bin args fs. Inl (process_error ''execve failed''))\<rparr>"

text \<open>
  A child that writes the lines \<open>ls\<close>; the liveness check after the last line has been read
  throws.
\<close>

definition lost_child :: "string list \<Rightarrow> child" where
  "lost_child ls =
     \<lparr>running = (\<lambda>k. if k < length ls then Inr True else Inl (process_error ''waitpid(2) failed'')),
      getline = (\<lambda>k. if k < length ls then Line (ls ! k) else Eof),
      wait = Exited\<rparr>"

text \<open>
  A child that writes the lines \<open>ls\<close> and closes its output while still running; waiting
  for it throws.
\<close>

definition unwaitable_child :: "string list \<Rightarrow> child" where
  "unwaitable_child ls =
     \<lparr>running = (\<lambda>k. Inr True),
      getline = (\<lambda>k. if k < length ls then Line (ls ! k) else Eof),
      wait = WaitThrows (process_error ''waitpid(2) failed'')\<rparr>"

definition empty_world :: world where
  "empty_world = \<lparr>files = Map.empty, trace = []\<rparr>"

definition stub_reader :: FileReader where
  "stub_reader = \<lparr>readFile = (\<lambda>kind path w. Some (Inr (Result True ''contract C {}''), w))\<rparr>"

section \<open>Basic facts\<close>

lemmas solve_unfold =
  solve_def solve_try_def solAssert_def path_append_def write_query_def ofstream_open_def
  ofstream_insert_def ofstream_close_def append_file_def log_event_def Let_def

lemmas linux_unfold =
  kind_ids_def what_def scripted_child_def linux_env_def empty_world_def

lemma trace_append_file [simp]: "trace (append_file p bytes w) = trace w"
  by (simp add: append_file_def)

lemma trace_write_query [simp]: "trace (snd (write_query E p text w)) = trace w"
  by (simp add: write_query_def ofstream_open_def ofstream_insert_def Let_def)

lemma trace_ofstream_close [simp]: "trace (ofstream_close E s w) = trace w"
  by (simp add: ofstream_close_def)

lemma trace_log_event [simp]: "trace (log_event ev w) = trace w @ [ev]"
  by (simp add: log_event_def)

text \<open>
  The loop collects the non-empty ones of the first \<open>n\<close> lines when \<open>n\<close> checks in a row
  find the child running and the next check, or the next read, ends the loop.
\<close>

lemma read_lines_prefix:
  assumes "\<forall>j<n. running c (k + j) = Inr True \<and> getline c (k + j) = Line (ls ! j)"
    and "n \<le> length ls"
    and "running c (k + n) = Inr False
         \<or> running c (k + n) = Inr True \<and> getline c (k + n) = Eof"
  shows "read_lines c k acc = Some (Inr (acc @ filter (\<lambda>l. l \<noteq> []) (take n ls)))"
  using assms
proof (induction n arbitrary: k acc ls)
  case 0
  then show ?case
    by (subst read_lines.simps) (auto split: sum.splits read.splits)
next
  case (Suc n)
  from Suc.prems(2) obtain x xs where ls: "ls = x # xs"
    by (cases ls) auto
  from Suc.prems(1) have here: "running c k = Inr True" "getline c k = Line x"
    using ls by (auto dest: spec [of _ 0])
  have rest: "\<forall>j<n. running c (k + 1 + j) = Inr True \<and> getline c (k + 1 + j) = Line (xs ! j)"
  proof (intro allI impI)
    fix j assume "j < n"
    then have "Suc j < Suc n" by simp
    with Suc.prems(1)
    have "running c (k + Suc j) = Inr True \<and> getline c (k + Suc j) = Line (ls ! Suc j)"
      by blast
    then show "running c (k + 1 + j) = Inr True \<and> getline c (k + 1 + j) = Line (xs ! j)"
      by (simp add: ls)
  qed
  have stop: "running c (k + 1 + n) = Inr False
              \<or> running c (k + 1 + n) = Inr True \<and> getline c (k + 1 + n) = Eof"
    using Suc.prems(3) by simp
  have len: "n \<le> length xs"
    using Suc.prems(2) ls by simp
  have "read_lines c k acc = read_lines c (k + 1) (if x \<noteq> [] then acc @ [x] else acc)"
    by (subst read_lines.simps) (simp add: here)
  also have "\<dots> = Some (Inr ((if x \<noteq> [] then acc @ [x] else acc)
                              @ filter (\<lambda>l. l \<noteq> []) (take n xs)))"
    by (rule Suc.IH [OF rest len stop])
  finally show ?case
    by (simp add: ls)
qed

text \<open>
  While the child is seen running and lines arrive, the loop goes on; it then throws what
  the next liveness check throws, or ends with what it has collected.
\<close>

lemma read_lines_skip:
  assumes "\<forall>j<n. running c (k + j) = Inr True \<and> (\<exists>l. getline c (k + j) = Line l)"
  shows "\<exists>acc'. read_lines c k acc = read_lines c (k + n) acc'"
  using assms
proof (induction n arbitrary: k acc)
  case 0
  show ?case by (rule exI [of _ acc]) simp
next
  case (Suc n)
  from Suc.prems obtain l where here: "running c k = Inr True" "getline c k = Line l"
    by (auto dest: spec [of _ 0])
  have rest: "\<forall>j<n. running c (Suc k + j) = Inr True \<and> (\<exists>l. getline c (Suc k + j) = Line l)"
  proof (intro allI impI)
    fix j assume "j < n"
    then have "Suc j < Suc n" by simp
    with Suc.prems
    have "running c (k + Suc j) = Inr True \<and> (\<exists>l. getline c (k + Suc j) = Line l)"
      by blast
    then show "running c (Suc k + j) = Inr True \<and> (\<exists>l. getline c (Suc k + j) = Line l)"
      by simp
  qed
  have "read_lines c k acc = read_lines c (Suc k) (if l \<noteq> [] then acc @ [l] else acc)"
    by (subst read_lines.simps) (simp add: here)
  moreover from Suc.IH [OF rest] obtain acc'
    where "read_lines c (Suc k) (if l \<noteq> [] then acc @ [l] else acc)
           = read_lines c (Suc k + n) acc'"
    by blast
  ultimately show ?case by auto
qed

lemma read_lines_throws:
  assumes "\<forall>j<n. running c j = Inr True \<and> (\<exists>l. getline c j = Line l)"
    and "running c n = Inl e"
  shows "read_lines c 0 [] = Some (Inl e)"
proof -
  from read_lines_skip [of n c 0 "[]"] assms(1)
  obtain acc' where "read_lines c 0 [] = read_lines c n acc'" by auto
  also have "\<dots> = Some (Inl e)"
    by (subst read_lines.simps) (simp add: assms(2))
  finally show ?thesis .
qed

lemma read_lines_finishes:
  assumes "\<forall>j<n. running c j = Inr True \<and> (\<exists>l. getline c j = Line l)"
    and "running c n = Inr False \<or> running c n = Inr True \<and> getline c n = Eof"
  shows "\<exists>collected. read_lines c 0 [] = Some (Inr collected)"
proof -
  from read_lines_skip [of n c 0 "[]"] assms(1)
  obtain acc' where "read_lines c 0 [] = read_lines c n acc'" by auto
  also from assms(2) have "\<dots> = Some (Inr acc')"
    by (subst read_lines.simps) auto
  finally show ?thesis by blast
qed

text \<open>The loop returns when it ends within some number of lines.\<close>

lemma read_lines_ends:
  "ends_within c k n \<Longrightarrow> \<exists>r. read_lines c k acc = Some r"
proof (induction n arbitrary: k acc)
  case 0
  then show ?case
    by (subst read_lines.simps) (auto split: sum.splits read.splits)
next
  case (Suc n)
  show ?case
  proof (cases "running c k")
    case (Inl e)
    then show ?thesis by (subst read_lines.simps) simp
  next
    case (Inr alive)
    show ?thesis
    proof (cases "getline c k")
      case (Line l)
      show ?thesis
      proof (cases alive)
        case True
        with Suc.prems Inr Line have "ends_within c (Suc k) n" by simp
        from Suc.IH [OF this] obtain r
          where "read_lines c (Suc k) (if l \<noteq> [] then acc @ [l] else acc) = Some r" by blast
        with Inr Line True show ?thesis by (subst read_lines.simps) simp
      next
        case False
        with Inr show ?thesis by (subst read_lines.simps) simp
      qed
    next
      case Eof
      with Inr show ?thesis by (subst read_lines.simps) simp
    next
      case Blocked
      with Suc.prems Inr have "\<not> alive" by simp
      with Inr show ?thesis by (subst read_lines.simps) simp
    qed
  qed
qed

text \<open>The \<^verbatim>\<open>try\<close> block is left, one way or the other, when every child returns control.\<close>

lemma solve_try_returns:
  assumes "children_return_control E"
  shows "\<exists>r w'. solve_try this E kind query w = Some (r, w')"
proof (cases "kind = kindString E SMTQuery")
  case False
  then show ?thesis by (simp add: solve_try_def solAssert_def)
next
  case kind: True
  show ?thesis
  proof (cases "temp_directory_path E")
    case (Inl e)
    with kind show ?thesis by (simp add: solve_try_def solAssert_def)
  next
    case (Inr tempDir)
    show ?thesis
    proof (cases "search_path E ''eld'' = []")
      case True
      with kind Inr show ?thesis by (simp add: solve_try_def solAssert_def Let_def)
    next
      case found: False
      let ?qf = "path_append tempDir ''query.smt2''"
      let ?w1 = "log_event (Search ''eld'') (snd (write_query E ?qf query w))"
      show ?thesis
      proof (cases "launch E (search_path E ''eld'') [''-ssol'', ''-scex'', ?qf] (files ?w1)")
        case (Inl e)
        with kind Inr found show ?thesis by (simp add: solve_try_def solAssert_def Let_def)
      next
        case started: (Inr eld)
        with assms have "returns_control eld"
          unfolding children_return_control_def by blast
        then obtain n where "ends_within eld 0 n" and w: "wait eld \<noteq> WaitBlocks"
          unfolding returns_control_def by blast
        from read_lines_ends [OF this(1)] obtain r where r: "read_lines eld 0 [] = Some r"
          by blast
        show ?thesis
        proof (cases r)
          case (Inl e)
          with kind Inr found started r show ?thesis
            by (simp add: solve_try_def solAssert_def Let_def)
        next
          case collected: (Inr collected)
          with kind Inr found started r w show ?thesis
            by (cases "wait eld") (simp_all add: solve_try_def solAssert_def Let_def)
        qed
      qed
    qed
  qed
qed

lemma scripted_child_returns_control:
  "children_return_control (linux_env (scripted_child [''sat''] 1))"
proof -
  have "ends_within (scripted_child [''sat''] 1) 0 1"
    by (simp add: scripted_child_def)
  moreover have "wait (scripted_child [''sat''] 1) \<noteq> WaitBlocks"
    by (simp add: scripted_child_def)
  ultimately have "returns_control (scripted_child [''sat''] 1)"
    unfolding returns_control_def by blast
  then show ?thesis
    by (simp add: children_return_control_def linux_env_def)
qed

lemma files_log_event [simp]: "files (log_event ev w) = files w"
  by (simp add: log_event_def)

text \<open>What lines 52 and 53 leave on disk: nothing of a text the buffer keeps, all of a
  text the buffer passes on.\<close>

lemma write_query_buffered:
  "open_ok E p \<Longrightarrow> write_through E text = 0 \<Longrightarrow>
   files (snd (write_query E p text w)) p = Some []"
  by (simp add: write_query_def ofstream_open_def ofstream_insert_def Let_def)

lemma write_query_written_through:
  "open_ok E p \<Longrightarrow> write_ok E p \<Longrightarrow> length text \<le> write_through E text \<Longrightarrow>
   files (snd (write_query E p text w)) p = Some text"
  by (simp add: write_query_def ofstream_open_def ofstream_insert_def append_file_def Let_def)

text \<open>A result of \<open>solve\<close> comes from a way out of the \<^verbatim>\<open>try\<close> block, in the same world.\<close>

lemma solve_from_try:
  "solve this E kind query w = Some (r, w') \<Longrightarrow>
   \<exists>r'. solve_try this E kind query w = Some (r', w')"
  by (auto simp: solve_def split: option.splits sum.splits prod.splits)

text \<open>The events of one call: the only name searched for is \<^verbatim>\<open>eld\<close>.\<close>

lemma solve_try_events:
  assumes "solve_try this E kind query w = Some (r, w')"
  shows "\<exists>evs. trace w' = trace w @ evs \<and> (\<forall>name. Search name \<in> set evs \<longrightarrow> name = ''eld'')"
  using assms
  by (auto simp: solve_try_def solAssert_def Let_def
      split: sum.splits option.splits if_splits wait_result.splits)

text \<open>Once the binary is found, the child constructor is called with the fixed arguments.\<close>

lemma solve_try_spawns:
  assumes "solve_try this E kind query w = Some (r, w')"
    and "kind = kindString E SMTQuery" and "temp_directory_path E = Inr tempDir"
    and "search_path E ''eld'' \<noteq> []"
  shows "\<exists>content evs. trace w' = trace w @ Search ''eld'' #
           Spawn (search_path E ''eld'') [''-ssol'', ''-scex'', path_append tempDir ''query.smt2'']
             content # evs"
  using assms
  by (auto simp: solve_try_def solAssert_def Let_def
      split: sum.splits option.splits wait_result.splits)

section \<open>The claims\<close>

subsection \<open>C1: exceptions never leave \<^verbatim>\<open>solve\<close>\<close>

text \<open>
  Claim C1, as amended. For every kind, query and environment no exception leaves
  \<open>solve\<close>, and \<open>solve\<close> returns a result whenever every child the environment can start
  returns control (its output ends or it is seen exited after finitely many lines, and
  waiting for it does not block); there is no timeout anywhere in \<open>solve\<close>, so without
  that condition the call need not return. Whenever an exception is raised inside the
  operation, the result has \<open>success = False\<close> and its message is the fixed prefix followed
  by the diagnostic information of that exception: this holds for the assertion on the
  kind, for \<^verbatim>\<open>temp_directory_path\<close>, for the constructor of the child, for a liveness check
  after any number of lines read, and for \<^verbatim>\<open>wait()\<close> after the loop has ended.
\<close>

theorem solve_turns_exceptions_into_results:
  "solve this E kind query w \<noteq> Some (Inl e, w')
   \<and> (children_return_control E \<longrightarrow> (\<exists>r w''. solve this E kind query w = Some (Inr r, w'')))
   \<and> (kind \<noteq> kindString E SMTQuery \<longrightarrow>
        (\<exists>w''. solve this E kind query w
           = Some (Inr (caught E (InternalCompilerError
                      (''SMTQuery callback used as callback kind '' @ kind))), w'')))
   \<and> (kind = kindString E SMTQuery \<and> temp_directory_path E = Inl e \<longrightarrow>
        (\<exists>w''. solve this E kind query w = Some (Inr (caught E e), w'')))
   \<and> (kind = kindString E SMTQuery \<and> temp_directory_path E = Inr tempDir
        \<and> search_path E ''eld'' \<noteq> [] \<and> started_by E tempDir query w = Inl e \<longrightarrow>
        (\<exists>w''. solve this E kind query w = Some (Inr (caught E e), w'')))
   \<and> (kind = kindString E SMTQuery \<and> temp_directory_path E = Inr tempDir
        \<and> search_path E ''eld'' \<noteq> [] \<and> started_by E tempDir query w = Inr eld
        \<and> reads_lines eld n \<and> running eld n = Inl e \<longrightarrow>
        (\<exists>w''. solve this E kind query w = Some (Inr (caught E e), w'')))
   \<and> (kind = kindString E SMTQuery \<and> temp_directory_path E = Inr tempDir
        \<and> search_path E ''eld'' \<noteq> [] \<and> started_by E tempDir query w = Inr eld
        \<and> reads_lines eld n
        \<and> (running eld n = Inr False \<or> running eld n = Inr True \<and> getline eld n = Eof)
        \<and> wait eld = WaitThrows e \<longrightarrow>
        (\<exists>w''. solve this E kind query w = Some (Inr (caught E e), w'')))"
proof (intro conjI impI)
  show "solve this E kind query w \<noteq> Some (Inl e, w')"
    by (auto simp: solve_def split: option.splits sum.splits prod.splits)
next
  assume "children_return_control E"
  from solve_try_returns [OF this] obtain r w1
    where "solve_try this E kind query w = Some (r, w1)" by blast
  then show "\<exists>r w''. solve this E kind query w = Some (Inr r, w'')"
    by (cases r) (simp_all add: solve_def)
next
  assume "kind \<noteq> kindString E SMTQuery"
  then show "\<exists>w''. solve this E kind query w
           = Some (Inr (caught E (InternalCompilerError
                      (''SMTQuery callback used as callback kind '' @ kind))), w'')"
    by (simp add: solve_def solve_try_def solAssert_def caught_def)
next
  assume "kind = kindString E SMTQuery \<and> temp_directory_path E = Inl e"
  then show "\<exists>w''. solve this E kind query w = Some (Inr (caught E e), w'')"
    by (simp add: solve_def solve_try_def solAssert_def caught_def)
next
  assume "kind = kindString E SMTQuery \<and> temp_directory_path E = Inr tempDir
        \<and> search_path E ''eld'' \<noteq> [] \<and> started_by E tempDir query w = Inl e"
  then show "\<exists>w''. solve this E kind query w = Some (Inr (caught E e), w'')"
    by (simp add: solve_def solve_try_def solAssert_def caught_def Let_def)
next
  assume a: "kind = kindString E SMTQuery \<and> temp_directory_path E = Inr tempDir
        \<and> search_path E ''eld'' \<noteq> [] \<and> started_by E tempDir query w = Inr eld
        \<and> reads_lines eld n \<and> running eld n = Inl e"
  then have "read_lines eld 0 [] = Some (Inl e)"
    by (intro read_lines_throws [of n]) blast+
  with a show "\<exists>w''. solve this E kind query w = Some (Inr (caught E e), w'')"
    by (simp add: solve_def solve_try_def solAssert_def caught_def Let_def)
next
  assume a: "kind = kindString E SMTQuery \<and> temp_directory_path E = Inr tempDir
        \<and> search_path E ''eld'' \<noteq> [] \<and> started_by E tempDir query w = Inr eld
        \<and> reads_lines eld n
        \<and> (running eld n = Inr False \<or> running eld n = Inr True \<and> getline eld n = Eof)
        \<and> wait eld = WaitThrows e"
  then obtain collected where "read_lines eld 0 [] = Some (Inr collected)"
    using read_lines_finishes [of n eld] by blast
  with a show "\<exists>w''. solve this E kind query w = Some (Inr (caught E e), w'')"
    by (simp add: solve_def solve_try_def solAssert_def caught_def Let_def)
qed

text \<open>
  One call that returns a success, and one call for each place where an exception is
  raised: another kind, no temporary directory, no process to be had, a liveness check
  that throws after one line, and a wait that throws after the output has ended.
\<close>

theorem solve_turns_exceptions_into_results_witness:
  "children_return_control (linux_env (scripted_child [''sat''] 1))
   \<and> map_option fst (solve (new_SMTSolverCommand ''eld'') (linux_env (scripted_child [''sat''] 1))
        ''smt-query'' ''(check-sat)'' empty_world) = Some (Inr (Result True ''sat''))
   \<and> ''source'' \<noteq> kindString (linux_env (scripted_child [''sat''] 1)) SMTQuery
   \<and> map_option fst (solve (new_SMTSolverCommand ''eld'') (linux_env (scripted_child [''sat''] 1))
        ''source'' ''(check-sat)'' empty_world)
      = Some (Inr (Result False
          ''Unknown exception in SMTQuery callback: SMTQuery callback used as callback kind source''))
   \<and> temp_directory_path (without_tmp (linux_env (scripted_child [''sat''] 1)))
      = Inl (filesystem_error ''temp_directory_path: Not a directory'')
   \<and> map_option fst (solve (new_SMTSolverCommand ''eld'')
        (without_tmp (linux_env (scripted_child [''sat''] 1))) ''smt-query'' ''(check-sat)''
        empty_world)
      = Some (Inr (Result False
          ''Unknown exception in SMTQuery callback: temp_directory_path: Not a directory''))
   \<and> started_by (unlaunchable (linux_env (scripted_child [''sat''] 1))) ''/tmp'' ''(check-sat)''
        empty_world
      = Inl (process_error ''execve failed'')
   \<and> map_option fst (solve (new_SMTSolverCommand ''eld'')
        (unlaunchable (linux_env (scripted_child [''sat''] 1))) ''smt-query'' ''(check-sat)''
        empty_world)
      = Some (Inr (Result False ''Unknown exception in SMTQuery callback: execve failed''))
   \<and> running (lost_child [''sat'']) 0 = Inr True
   \<and> getline (lost_child [''sat'']) 0 = Line ''sat''
   \<and> running (lost_child [''sat'']) 1 = Inl (process_error ''waitpid(2) failed'')
   \<and> map_option fst (solve (new_SMTSolverCommand ''eld'') (linux_env (lost_child [''sat'']))
        ''smt-query'' ''(check-sat)'' empty_world)
      = Some (Inr (Result False ''Unknown exception in SMTQuery callback: waitpid(2) failed''))
   \<and> running (unwaitable_child [''sat'']) 1 = Inr True
   \<and> getline (unwaitable_child [''sat'']) 1 = Eof
   \<and> wait (unwaitable_child [''sat'']) = WaitThrows (process_error ''waitpid(2) failed'')
   \<and> map_option fst (solve (new_SMTSolverCommand ''eld'') (linux_env (unwaitable_child [''sat'']))
        ''smt-query'' ''(check-sat)'' empty_world)
      = Some (Inr (Result False ''Unknown exception in SMTQuery callback: waitpid(2) failed''))"
proof -
  let ?cmd = "new_SMTSolverCommand ''eld''"
  let ?c = "scripted_child [''sat''] 1"
  let ?L = "linux_env ?c"
  let ?T = "without_tmp ?L"
  let ?U = "unlaunchable ?L"
  let ?lost = "lost_child [''sat'']"
  let ?unw = "unwaitable_child [''sat'']"
  let ?fs = "filesystem_error ''temp_directory_path: Not a directory''"
  let ?pe = "process_error ''waitpid(2) failed''"
  note envs = linux_env_def without_tmp_def unlaunchable_def kind_ids_def what_def caught_def
  \<comment> \<open>the call returns\<close>
  have h: "children_return_control ?L"
    by (rule scripted_child_returns_control)
  have v: "map_option fst (solve ?cmd ?L ''smt-query'' ''(check-sat)'' empty_world)
      = Some (Inr (Result True ''sat''))"
    by (simp add: read_lines.simps solve_unfold linux_unfold)
  \<comment> \<open>the assertion\<close>
  have k1: "''source'' \<noteq> kindString ?L SMTQuery"
    by (simp add: envs)
  from solve_turns_exceptions_into_results
         [of ?cmd ?L "''source''" "''(check-sat)''" empty_world ?fs empty_world "''/tmp''" ?c 0] k1
  obtain w1 where "solve ?cmd ?L ''source'' ''(check-sat)'' empty_world
      = Some (Inr (caught ?L (InternalCompilerError
                      (''SMTQuery callback used as callback kind '' @ ''source''))), w1)"
    by blast
  then have r1: "map_option fst (solve ?cmd ?L ''source'' ''(check-sat)'' empty_world)
      = Some (Inr (Result False
          ''Unknown exception in SMTQuery callback: SMTQuery callback used as callback kind source''))"
    by (simp add: envs)
  \<comment> \<open>the temporary directory\<close>
  have k2: "''smt-query'' = kindString ?T SMTQuery" and t2: "temp_directory_path ?T = Inl ?fs"
    by (simp_all add: envs)
  from solve_turns_exceptions_into_results
         [of ?cmd ?T "''smt-query''" "''(check-sat)''" empty_world ?fs empty_world "''/tmp''" ?c 0]
       k2 t2
  obtain w2 where "solve ?cmd ?T ''smt-query'' ''(check-sat)'' empty_world
      = Some (Inr (caught ?T ?fs), w2)"
    by blast
  then have r2: "map_option fst (solve ?cmd ?T ''smt-query'' ''(check-sat)'' empty_world)
      = Some (Inr (Result False
          ''Unknown exception in SMTQuery callback: temp_directory_path: Not a directory''))"
    by (simp add: envs)
  \<comment> \<open>the child constructor\<close>
  have k3: "''smt-query'' = kindString ?U SMTQuery" and t3: "temp_directory_path ?U = Inr ''/tmp''"
    and b3: "search_path ?U ''eld'' \<noteq> []"
    and l3: "started_by ?U ''/tmp'' ''(check-sat)'' empty_world = Inl (process_error ''execve failed'')"
    by (simp_all add: envs)
  from solve_turns_exceptions_into_results
         [of ?cmd ?U "''smt-query''" "''(check-sat)''" empty_world
             "process_error ''execve failed''" empty_world "''/tmp''" ?c 0]
       k3 t3 b3 l3
  obtain w3 where "solve ?cmd ?U ''smt-query'' ''(check-sat)'' empty_world
      = Some (Inr (caught ?U (process_error ''execve failed'')), w3)"
    by blast
  then have r3: "map_option fst (solve ?cmd ?U ''smt-query'' ''(check-sat)'' empty_world)
      = Some (Inr (Result False ''Unknown exception in SMTQuery callback: execve failed''))"
    by (simp add: envs)
  \<comment> \<open>a liveness check\<close>
  have k4: "''smt-query'' = kindString (linux_env ?lost) SMTQuery"
    and t4: "temp_directory_path (linux_env ?lost) = Inr ''/tmp''"
    and b4: "search_path (linux_env ?lost) ''eld'' \<noteq> []"
    and l4: "started_by (linux_env ?lost) ''/tmp'' ''(check-sat)'' empty_world = Inr ?lost"
    by (simp_all add: envs)
  have a4: "running ?lost 0 = Inr True" and g4: "getline ?lost 0 = Line ''sat''"
    and e4: "running ?lost 1 = Inl ?pe"
    by (simp_all add: lost_child_def)
  from a4 g4 have d4: "reads_lines ?lost 1"
    by simp
  from solve_turns_exceptions_into_results
         [of ?cmd "linux_env ?lost" "''smt-query''" "''(check-sat)''" empty_world ?pe empty_world
             "''/tmp''" ?lost 1]
       k4 t4 b4 l4 d4 e4
  obtain w4 where "solve ?cmd (linux_env ?lost) ''smt-query'' ''(check-sat)'' empty_world
      = Some (Inr (caught (linux_env ?lost) ?pe), w4)"
    by blast
  then have r4: "map_option fst (solve ?cmd (linux_env ?lost) ''smt-query'' ''(check-sat)''
      empty_world)
      = Some (Inr (Result False ''Unknown exception in SMTQuery callback: waitpid(2) failed''))"
    by (simp add: envs)
  \<comment> \<open>the wait\<close>
  have k5: "''smt-query'' = kindString (linux_env ?unw) SMTQuery"
    and t5: "temp_directory_path (linux_env ?unw) = Inr ''/tmp''"
    and b5: "search_path (linux_env ?unw) ''eld'' \<noteq> []"
    and l5: "started_by (linux_env ?unw) ''/tmp'' ''(check-sat)'' empty_world = Inr ?unw"
    by (simp_all add: envs)
  have a5: "running ?unw 0 = Inr True" and g5: "getline ?unw 0 = Line ''sat''"
    and s5: "running ?unw 1 = Inr True" and f5: "getline ?unw 1 = Eof"
    and x5: "wait ?unw = WaitThrows ?pe"
    by (simp_all add: unwaitable_child_def)
  from a5 g5 have d5: "reads_lines ?unw 1"
    by simp
  from solve_turns_exceptions_into_results
         [of ?cmd "linux_env ?unw" "''smt-query''" "''(check-sat)''" empty_world ?pe empty_world
             "''/tmp''" ?unw 1]
       k5 t5 b5 l5 d5 s5 f5 x5
  obtain w5 where "solve ?cmd (linux_env ?unw) ''smt-query'' ''(check-sat)'' empty_world
      = Some (Inr (caught (linux_env ?unw) ?pe), w5)"
    by blast
  then have r5: "map_option fst (solve ?cmd (linux_env ?unw) ''smt-query'' ''(check-sat)''
      empty_world)
      = Some (Inr (Result False ''Unknown exception in SMTQuery callback: waitpid(2) failed''))"
    by (simp add: envs)
  from h v k1 r1 t2 r2 l3 r3 a4 g4 e4 r4 s5 f5 x5 r5 show ?thesis
    by blast
qed

text \<open>
  The claim as stated fails at a child that is alive and silent: the first read blocks
  and \<open>solve\<close> never returns.
\<close>

theorem solve_hangs_with_the_child:
  "solve (new_SMTSolverCommand ''eld'') (linux_env (stalled_child [])) ''smt-query''
     ''(check-sat)'' empty_world = None"
  by (simp add: read_lines.simps stalled_child_def solve_unfold linux_unfold)

subsection \<open>C2: the reading loop and output still in the pipe\<close>

text \<open>
  Claim C2 says that no line the child wrote is missing from what the loop collects,
  output buffered just before the exit included. The loop tests \<^verbatim>\<open>eld.running()\<close> first
  and reads only when that holds. At a child that has written \<^verbatim>\<open>sat\<close> and is gone when
  the loop makes its first test, the line is in the pipe, the loop collects nothing and
  \<open>solve\<close> returns success with empty data.
\<close>

theorem read_lines_drops_lines_buffered_at_exit:
  "getline (scripted_child [''sat''] 0) 0 = Line ''sat''
   \<and> read_lines (scripted_child [''sat''] 0) 0 [] = Some (Inr [])
   \<and> map_option fst (solve (new_SMTSolverCommand ''eld'') (linux_env (scripted_child [''sat''] 0))
        ''smt-query'' ''(check-sat)'' empty_world) = Some (Inr (Result True []))"
  by (simp add: read_lines.simps solve_unfold linux_unfold)

subsection \<open>C3: \<^verbatim>\<open>solve\<close> called with another kind\<close>

text \<open>
  Claim C3, as amended. For every kind string other than the identifier of \<open>SMTQuery\<close>
  and every query, the assertion of line 47 throws inside the \<^verbatim>\<open>try\<close> block and is caught
  by its handler: \<open>solve\<close> returns a result with \<open>success = False\<close> whose message is the
  fixed prefix followed by the diagnostic information of the \<^verbatim>\<open>InternalCompilerError\<close>
  that carries \<^verbatim>\<open>SMTQuery callback used as callback kind\<close> and the kind. The world is
  untouched: no file is written, nothing is searched for or started.
\<close>

theorem solve_wrong_kind_is_a_failed_result:
  "kind \<noteq> kindString E SMTQuery \<Longrightarrow>
   solve this E kind query w =
     Some (Inr (Result False
             (''Unknown exception in SMTQuery callback: '' @
              diagnostic_information E
                (InternalCompilerError (''SMTQuery callback used as callback kind '' @ kind)))),
           w)"
  by (simp add: solve_def solve_try_def solAssert_def)

theorem solve_wrong_kind_is_a_failed_result_witness:
  "''source'' \<noteq> kindString (linux_env (scripted_child [] 0)) SMTQuery
   \<and> solve (new_SMTSolverCommand ''eld'') (linux_env (scripted_child [] 0)) ''source'' ''(check-sat)''
        empty_world
      = Some (Inr (Result False
           ''Unknown exception in SMTQuery callback: SMTQuery callback used as callback kind source''),
              empty_world)"
proof -
  have h: "''source'' \<noteq> kindString (linux_env (scripted_child [] 0)) SMTQuery"
    by (simp add: linux_env_def kind_ids_def)
  from solve_wrong_kind_is_a_failed_result [OF h, of "new_SMTSolverCommand ''eld''" "''(check-sat)''" empty_world] h
  show ?thesis
    by (simp add: linux_env_def what_def)
qed

text \<open>The claim as stated fails: called with the identifier of \<open>ReadFile\<close>, \<open>solve\<close> returns.\<close>

theorem solve_wrong_kind_returns:
  "kindString (linux_env (scripted_child [] 0)) ReadFile \<noteq> kindString (linux_env (scripted_child [] 0)) SMTQuery
   \<and> map_option fst (solve (new_SMTSolverCommand ''eld'') (linux_env (scripted_child [] 0))
        (kindString (linux_env (scripted_child [] 0)) ReadFile) ''(check-sat)'' empty_world)
      = Some (Inr (Result False
           ''Unknown exception in SMTQuery callback: SMTQuery callback used as callback kind source''))"
  by (simp add: solve_unfold linux_unfold)

subsection \<open>C4: a query file that cannot be written\<close>

text \<open>
  Claim C4, as amended. In a call with the \<open>SMTQuery\<close> kind: when the temporary
  directory cannot be resolved, which is thrown, \<open>solve\<close> returns a failed result with
  the diagnostic and leaves the world as it was (nothing is searched for or started).
  When instead the query file cannot be opened or written, nothing is thrown and
  nothing is checked: \<open>solve\<close> goes on to search for \<^verbatim>\<open>eld\<close>, returns the binary-not-found
  result when there is none, and otherwise calls the child constructor on the found
  binary with the fixed arguments.
\<close>

theorem solve_does_not_check_the_query_file:
  assumes "kind = kindString E SMTQuery"
  shows "(temp_directory_path E = Inl e \<longrightarrow>
            solve this E kind query w =
              Some (Inr (Result False
                      (''Unknown exception in SMTQuery callback: '' @ diagnostic_information E e)),
                    w))
       \<and> (temp_directory_path E = Inr tempDir
            \<and> (\<not> open_ok E (path_append tempDir ''query.smt2'')
                \<or> \<not> write_ok E (path_append tempDir ''query.smt2'')) \<longrightarrow>
            (search_path E ''eld'' = [] \<longrightarrow>
               (\<exists>w'. solve this E kind query w
                        = Some (Inr (Result False ''Eldarica binary not found.''), w')
                    \<and> trace w' = trace w @ [Search ''eld'']))
          \<and> (\<forall>r w'. search_path E ''eld'' \<noteq> [] \<and> solve this E kind query w = Some (r, w') \<longrightarrow>
               (\<exists>content evs. trace w' = trace w @ Search ''eld'' #
                   Spawn (search_path E ''eld'')
                     [''-ssol'', ''-scex'', path_append tempDir ''query.smt2''] content # evs)))"
proof (intro conjI impI allI)
  assume "temp_directory_path E = Inl e"
  with assms show "solve this E kind query w =
              Some (Inr (Result False
                      (''Unknown exception in SMTQuery callback: '' @ diagnostic_information E e)),
                    w)"
    by (simp add: solve_def solve_try_def solAssert_def)
next
  assume "temp_directory_path E = Inr tempDir
            \<and> (\<not> open_ok E (path_append tempDir ''query.smt2'')
                \<or> \<not> write_ok E (path_append tempDir ''query.smt2''))"
    and "search_path E ''eld'' = []"
  with assms show "\<exists>w'. solve this E kind query w
                        = Some (Inr (Result False ''Eldarica binary not found.''), w')
                    \<and> trace w' = trace w @ [Search ''eld'']"
    by (simp add: solve_def solve_try_def solAssert_def Let_def)
next
  fix r w'
  assume t: "temp_directory_path E = Inr tempDir
            \<and> (\<not> open_ok E (path_append tempDir ''query.smt2'')
                \<or> \<not> write_ok E (path_append tempDir ''query.smt2''))"
    and s: "search_path E ''eld'' \<noteq> [] \<and> solve this E kind query w = Some (r, w')"
  from s obtain r' where "solve_try this E kind query w = Some (r', w')"
    by (blast dest: solve_from_try)
  from solve_try_spawns [OF this assms] t s
  show "\<exists>content evs. trace w' = trace w @ Search ''eld'' #
                   Spawn (search_path E ''eld'')
                     [''-ssol'', ''-scex'', path_append tempDir ''query.smt2''] content # evs"
    by blast
qed

text \<open>
  Three machines: one without a temporary directory, one on which the query file cannot
  be opened, and one on which it cannot be opened and there is no solver either.
\<close>

theorem solve_does_not_check_the_query_file_witness:
  "''smt-query'' = kindString (linux_env (scripted_child [''sat''] 1)) SMTQuery
   \<and> temp_directory_path (without_tmp (linux_env (scripted_child [''sat''] 1)))
       = Inl (filesystem_error ''temp_directory_path: Not a directory'')
   \<and> solve (new_SMTSolverCommand ''eld'') (without_tmp (linux_env (scripted_child [''sat''] 1)))
        ''smt-query'' ''(check-sat)'' empty_world
       = Some (Inr (Result False
            ''Unknown exception in SMTQuery callback: temp_directory_path: Not a directory''),
               empty_world)
   \<and> temp_directory_path (readonly (linux_env (scripted_child [''sat''] 1))) = Inr ''/tmp''
   \<and> \<not> open_ok (readonly (linux_env (scripted_child [''sat''] 1)))
         (path_append ''/tmp'' ''query.smt2'')
   \<and> search_path (readonly (linux_env (scripted_child [''sat''] 1))) ''eld'' = ''/usr/bin/eld''
   \<and> (\<exists>r w' content evs.
         solve (new_SMTSolverCommand ''eld'') (readonly (linux_env (scripted_child [''sat''] 1)))
           ''smt-query'' ''(check-sat)'' empty_world = Some (r, w')
         \<and> trace w' = Search ''eld'' #
             Spawn ''/usr/bin/eld'' [''-ssol'', ''-scex'', ''/tmp/query.smt2''] content # evs)
   \<and> search_path (without_solver (readonly (linux_env (scripted_child [''sat''] 1)))) ''eld'' = []
   \<and> map_option fst (solve (new_SMTSolverCommand ''eld'')
         (without_solver (readonly (linux_env (scripted_child [''sat''] 1))))
         ''smt-query'' ''(check-sat)'' empty_world)
       = Some (Inr (Result False ''Eldarica binary not found.''))"
proof -
  let ?L = "linux_env (scripted_child [''sat''] 1)"
  let ?T = "without_tmp ?L"
  let ?E = "readonly ?L"
  let ?N = "without_solver ?E"
  let ?cmd = "new_SMTSolverCommand ''eld''"
  have k0: "''smt-query'' = kindString ?L SMTQuery"
    by (simp add: linux_env_def kind_ids_def)
  have p: "path_append ''/tmp'' ''query.smt2'' = ''/tmp/query.smt2''"
    by (simp add: path_append_def)
  \<comment> \<open>no temporary directory\<close>
  have kT: "''smt-query'' = kindString ?T SMTQuery"
    by (simp add: without_tmp_def linux_env_def kind_ids_def)
  have tT: "temp_directory_path ?T = Inl (filesystem_error ''temp_directory_path: Not a directory'')"
    by (simp add: without_tmp_def)
  from solve_does_not_check_the_query_file
         [OF kT, of "filesystem_error ''temp_directory_path: Not a directory''" ?cmd
            "''(check-sat)''" empty_world "''/tmp''"] tT
  have first: "solve ?cmd ?T ''smt-query'' ''(check-sat)'' empty_world
       = Some (Inr (Result False
            ''Unknown exception in SMTQuery callback: temp_directory_path: Not a directory''),
               empty_world)"
    by (simp add: without_tmp_def linux_env_def what_def)
  \<comment> \<open>the file cannot be opened, the solver is there\<close>
  have k: "''smt-query'' = kindString ?E SMTQuery"
    by (simp add: readonly_def linux_env_def kind_ids_def)
  have t: "temp_directory_path ?E = Inr ''/tmp''"
    and o: "\<not> open_ok ?E (path_append ''/tmp'' ''query.smt2'')"
    and b: "search_path ?E ''eld'' = ''/usr/bin/eld''"
    by (simp_all add: readonly_def linux_env_def)
  obtain r w' where s: "solve ?cmd ?E ''smt-query'' ''(check-sat)'' empty_world = Some (r, w')"
    by (simp add: read_lines.simps readonly_def solve_unfold linux_unfold)
  from solve_does_not_check_the_query_file
         [OF k, of "filesystem_error []" ?cmd "''(check-sat)''" empty_world "''/tmp''"] t o b s
  obtain content evs where "trace w' = trace empty_world @ Search ''eld'' #
      Spawn ''/usr/bin/eld'' [''-ssol'', ''-scex'', ''/tmp/query.smt2''] content # evs"
    unfolding p by auto
  with s have second: "\<exists>r w' content evs.
         solve ?cmd ?E ''smt-query'' ''(check-sat)'' empty_world = Some (r, w')
         \<and> trace w' = Search ''eld'' #
             Spawn ''/usr/bin/eld'' [''-ssol'', ''-scex'', ''/tmp/query.smt2''] content # evs"
    by (auto simp: empty_world_def)
  \<comment> \<open>the file cannot be opened, the solver is not there\<close>
  have kN: "''smt-query'' = kindString ?N SMTQuery"
    by (simp add: without_solver_def readonly_def linux_env_def kind_ids_def)
  have tN: "temp_directory_path ?N = Inr ''/tmp''"
    and oN: "\<not> open_ok ?N (path_append ''/tmp'' ''query.smt2'')"
    and bN: "search_path ?N ''eld'' = []"
    by (simp_all add: without_solver_def readonly_def linux_env_def)
  from solve_does_not_check_the_query_file
         [OF kN, of "filesystem_error []" ?cmd "''(check-sat)''" empty_world "''/tmp''"] tN oN bN
  obtain w'' where "solve ?cmd ?N ''smt-query'' ''(check-sat)'' empty_world
      = Some (Inr (Result False ''Eldarica binary not found.''), w'')"
    by auto
  then have third: "map_option fst (solve ?cmd ?N ''smt-query'' ''(check-sat)'' empty_world)
       = Some (Inr (Result False ''Eldarica binary not found.''))"
    by simp
  from k0 tT first t o b second bN third show ?thesis
    by blast
qed

text \<open>
  The claim as stated fails where no file can be opened for writing: the solver is
  searched for and started, and the call succeeds.
\<close>

theorem solve_spawns_although_the_file_was_not_written:
  "\<not> open_ok (readonly (linux_env (scripted_child [''sat''] 1))) ''/tmp/query.smt2''
   \<and> map_option fst (solve (new_SMTSolverCommand ''eld'') (readonly (linux_env (scripted_child [''sat''] 1)))
        ''smt-query'' ''(check-sat)'' empty_world) = Some (Inr (Result True ''sat''))
   \<and> map_option (trace \<circ> snd) (solve (new_SMTSolverCommand ''eld'')
        (readonly (linux_env (scripted_child [''sat''] 1))) ''smt-query'' ''(check-sat)'' empty_world)
     = Some [Search ''eld'',
             Spawn ''/usr/bin/eld'' [''-ssol'', ''-scex'', ''/tmp/query.smt2''] None, Reap]"
  by (simp add: read_lines.simps readonly_def solve_unfold linux_unfold)

subsection \<open>C5: no solver binary\<close>

text \<open>
  Claim C5, as amended. When the search path holds no \<^verbatim>\<open>eld\<close>, \<open>solve\<close> returns a result
  with \<open>success = False\<close> and starts no child, for every query, kind and file system: the
  events it adds are none, or the search alone. The message is the fixed text
  \<^verbatim>\<open>Eldarica binary not found.\<close> when the call reaches the search, that is when the kind
  is \<open>SMTQuery\<close> and the temporary directory is resolved. When an earlier step throws (the
  assertion on the kind, or \<^verbatim>\<open>temp_directory_path\<close>), the path is not searched and the
  message is the fixed prefix followed by the diagnostic information of that exception.
\<close>

theorem solve_binary_not_found:
  assumes "search_path E ''eld'' = []"
  shows "\<exists>msg w'. solve this E kind query w = Some (Inr (Result False msg), w')
           \<and> (trace w' = trace w \<or> trace w' = trace w @ [Search ''eld''])
           \<and> (kind = kindString E SMTQuery \<and> temp_directory_path E = Inr tempDir \<longrightarrow>
                msg = ''Eldarica binary not found.'' \<and> trace w' = trace w @ [Search ''eld''])
           \<and> (kind = kindString E SMTQuery \<and> temp_directory_path E = Inl e \<longrightarrow>
                msg = ''Unknown exception in SMTQuery callback: '' @ diagnostic_information E e
                \<and> trace w' = trace w)
           \<and> (kind \<noteq> kindString E SMTQuery \<longrightarrow>
                msg = ''Unknown exception in SMTQuery callback: '' @
                      diagnostic_information E
                        (InternalCompilerError (''SMTQuery callback used as callback kind '' @ kind))
                \<and> trace w' = trace w)"
proof (cases "kind = kindString E SMTQuery")
  case False
  then show ?thesis
    by (simp add: solve_def solve_try_def solAssert_def)
next
  case kind: True
  show ?thesis
  proof (cases "temp_directory_path E")
    case (Inl e)
    with kind show ?thesis
      by (simp add: solve_def solve_try_def solAssert_def)
  next
    case (Inr dir)
    with kind assms show ?thesis
      by (simp add: solve_def solve_try_def solAssert_def Let_def)
  qed
qed

text \<open>A machine without the solver, called with the \<open>SMTQuery\<close> kind and with another.\<close>

theorem solve_binary_not_found_witness:
  "search_path (without_solver (linux_env (scripted_child [''sat''] 1))) ''eld'' = []
   \<and> ''smt-query'' = kindString (without_solver (linux_env (scripted_child [''sat''] 1))) SMTQuery
   \<and> temp_directory_path (without_solver (linux_env (scripted_child [''sat''] 1))) = Inr ''/tmp''
   \<and> map_option fst (solve (new_SMTSolverCommand ''eld'')
        (without_solver (linux_env (scripted_child [''sat''] 1)))
        ''smt-query'' ''(check-sat)'' empty_world)
      = Some (Inr (Result False ''Eldarica binary not found.''))
   \<and> map_option (trace \<circ> snd) (solve (new_SMTSolverCommand ''eld'')
        (without_solver (linux_env (scripted_child [''sat''] 1))) ''smt-query'' ''(check-sat)''
        empty_world)
      = Some [Search ''eld'']
   \<and> ''source'' \<noteq> kindString (without_solver (linux_env (scripted_child [''sat''] 1))) SMTQuery
   \<and> solve (new_SMTSolverCommand ''eld'') (without_solver (linux_env (scripted_child [''sat''] 1)))
        ''source'' ''(check-sat)'' empty_world
      = Some (Inr (Result False
          ''Unknown exception in SMTQuery callback: SMTQuery callback used as callback kind source''),
              empty_world)"
proof -
  let ?E = "without_solver (linux_env (scripted_child [''sat''] 1))"
  let ?cmd = "new_SMTSolverCommand ''eld''"
  have h1: "search_path ?E ''eld'' = []"
    by (simp add: without_solver_def linux_env_def)
  have h2: "''smt-query'' = kindString ?E SMTQuery" and h4: "''source'' \<noteq> kindString ?E SMTQuery"
    by (simp_all add: without_solver_def linux_env_def kind_ids_def)
  have h3: "temp_directory_path ?E = Inr ''/tmp''"
    by (simp add: without_solver_def linux_env_def)
  from solve_binary_not_found
         [OF h1, of ?cmd "''smt-query''" "''(check-sat)''" empty_world "''/tmp''"] h2 h3
  obtain w' where "solve ?cmd ?E ''smt-query'' ''(check-sat)'' empty_world
        = Some (Inr (Result False ''Eldarica binary not found.''), w')"
    and "trace w' = trace empty_world @ [Search ''eld'']"
    by auto
  then have a: "map_option fst (solve ?cmd ?E ''smt-query'' ''(check-sat)'' empty_world)
      = Some (Inr (Result False ''Eldarica binary not found.''))"
    and b: "map_option (trace \<circ> snd) (solve ?cmd ?E ''smt-query'' ''(check-sat)'' empty_world)
      = Some [Search ''eld'']"
    by (simp_all add: empty_world_def)
  have c: "solve ?cmd ?E ''source'' ''(check-sat)'' empty_world
      = Some (Inr (Result False
          ''Unknown exception in SMTQuery callback: SMTQuery callback used as callback kind source''),
              empty_world)"
    by (simp add: solve_unfold linux_unfold without_solver_def)
  from h1 h2 h3 a b h4 c show ?thesis
    by blast
qed

text \<open>
  The claim as stated fails on a machine that has neither the solver nor a temporary
  directory: line 49 throws before line 55 is reached, and the message is the diagnostic
  of \<^verbatim>\<open>temp_directory_path\<close>, not the fixed text.
\<close>

theorem solve_without_binary_reports_the_earlier_exception:
  "search_path (without_solver (without_tmp (linux_env (scripted_child [''sat''] 1)))) ''eld'' = []
   \<and> map_option fst (solve (new_SMTSolverCommand ''eld'')
        (without_solver (without_tmp (linux_env (scripted_child [''sat''] 1))))
        ''smt-query'' ''(check-sat)'' empty_world)
      = Some (Inr (Result False
          ''Unknown exception in SMTQuery callback: temp_directory_path: Not a directory''))
   \<and> map_option fst (solve (new_SMTSolverCommand ''eld'')
        (without_solver (without_tmp (linux_env (scripted_child [''sat''] 1))))
        ''smt-query'' ''(check-sat)'' empty_world)
      \<noteq> Some (Inr (Result False ''Eldarica binary not found.''))"
  by (simp add: solve_unfold linux_unfold without_solver_def without_tmp_def)

subsection \<open>C6: the result for the lines the child wrote\<close>

text \<open>
  Claim C6, as amended. In a call with the \<open>SMTQuery\<close> kind that starts a child: for
  every finite sequence of lines that the child writes before it closes its output, if
  each liveness check made before the output is exhausted finds the child running, the
  check after that does not throw, and \<^verbatim>\<open>wait()\<close> returns, then \<open>solve\<close> returns a result
  with \<open>success = True\<close> whose data is the non-empty lines, in the order written, joined
  by newlines. With no output at all the data is empty.
\<close>

theorem solve_returns_the_nonempty_lines:
  assumes "kind = kindString E SMTQuery"
    and "temp_directory_path E = Inr tempDir"
    and "search_path E ''eld'' \<noteq> []"
    and "launch E (search_path E ''eld'') [''-ssol'', ''-scex'', path_append tempDir ''query.smt2'']
           (files (snd (write_query E (path_append tempDir ''query.smt2'') query w))) = Inr eld"
    and "emits eld ls" and "seen_running eld (length ls)" and "wait eld = Exited"
  shows "\<exists>w'. solve this E kind query w
           = Some (Inr (Result True (join (filter (\<lambda>l. l \<noteq> []) ls) [CHR 0x0A])), w')"
proof -
  from assms(6) obtain alive
    where run: "\<forall>j<length ls. running eld j = Inr True" and last: "running eld (length ls) = Inr alive"
    unfolding seen_running_def by blast
  from assms(5) have out: "\<forall>j<length ls. getline eld j = Line (ls ! j)"
    and eof: "getline eld (length ls) = Eof"
    unfolding emits_def by blast+
  have "read_lines eld 0 [] = Some (Inr ([] @ filter (\<lambda>l. l \<noteq> []) (take (length ls) ls)))"
  proof (rule read_lines_prefix)
    show "\<forall>j<length ls. running eld (0 + j) = Inr True \<and> getline eld (0 + j) = Line (ls ! j)"
      using run out by simp
    show "length ls \<le> length ls" by simp
    show "running eld (0 + length ls) = Inr False
          \<or> running eld (0 + length ls) = Inr True \<and> getline eld (0 + length ls) = Eof"
      using last eof by (cases alive) simp_all
  qed
  then have "read_lines eld 0 [] = Some (Inr (filter (\<lambda>l. l \<noteq> []) ls))"
    by simp
  with assms(1-4,7) show ?thesis
    by (simp add: solve_def solve_try_def solAssert_def Let_def)
qed

text \<open>
  At a child that writes \<^verbatim>\<open>unsat\<close>, an empty line and \<^verbatim>\<open>(model)\<close> and is seen running
  throughout, and at a child that writes nothing.
\<close>

theorem solve_returns_the_nonempty_lines_witness:
  "''smt-query'' = kindString (linux_env (scripted_child [''unsat'', [], ''(model)''] 3)) SMTQuery
   \<and> emits (scripted_child [''unsat'', [], ''(model)''] 3) [''unsat'', [], ''(model)'']
   \<and> seen_running (scripted_child [''unsat'', [], ''(model)''] 3) 3
   \<and> wait (scripted_child [''unsat'', [], ''(model)''] 3) = Exited
   \<and> map_option fst (solve (new_SMTSolverCommand ''eld'')
        (linux_env (scripted_child [''unsat'', [], ''(model)''] 3)) ''smt-query'' ''(check-sat)''
        empty_world)
     = Some (Inr (Result True (''unsat'' @ [CHR 0x0A] @ ''(model)'')))
   \<and> emits (scripted_child [] 0) []
   \<and> seen_running (scripted_child [] 0) 0
   \<and> map_option fst (solve (new_SMTSolverCommand ''eld'') (linux_env (scripted_child [] 0))
        ''smt-query'' ''(check-sat)'' empty_world)
     = Some (Inr (Result True []))"
proof -
  let ?c = "scripted_child [''unsat'', [], ''(model)''] 3"
  let ?E = "linux_env ?c"
  let ?d = "scripted_child [] 0"
  let ?F = "linux_env ?d"
  have k: "''smt-query'' = kindString ?E SMTQuery" and k': "''smt-query'' = kindString ?F SMTQuery"
    by (simp_all add: linux_env_def kind_ids_def)
  have t: "temp_directory_path ?E = Inr ''/tmp''" and b: "search_path ?E ''eld'' \<noteq> []"
    and l: "launch ?E (search_path ?E ''eld'')
              [''-ssol'', ''-scex'', path_append ''/tmp'' ''query.smt2'']
              (files (snd (write_query ?E (path_append ''/tmp'' ''query.smt2'') ''(check-sat)''
                 empty_world)))
            = Inr ?c"
    by (simp_all add: linux_env_def)
  have t': "temp_directory_path ?F = Inr ''/tmp''" and b': "search_path ?F ''eld'' \<noteq> []"
    and l': "launch ?F (search_path ?F ''eld'')
              [''-ssol'', ''-scex'', path_append ''/tmp'' ''query.smt2'']
              (files (snd (write_query ?F (path_append ''/tmp'' ''query.smt2'') ''(check-sat)''
                 empty_world)))
            = Inr ?d"
    by (simp_all add: linux_env_def)
  have e: "emits ?c [''unsat'', [], ''(model)'']" and e': "emits ?d []"
    by (simp_all add: emits_def scripted_child_def)
  have r3: "seen_running ?c 3" and r0: "seen_running ?d 0"
    by (auto simp: seen_running_def scripted_child_def)
  have r: "seen_running ?c (length [''unsat'', [], ''(model)''])"
    using r3 by (simp add: numeral_3_eq_3)
  have r': "seen_running ?d (length ([] :: string list))"
    using r0 by simp
  have x: "wait ?c = Exited" and x': "wait ?d = Exited"
    by (simp_all add: scripted_child_def)
  from solve_returns_the_nonempty_lines [OF k t b l e r x, of "new_SMTSolverCommand ''eld''"]
  obtain w' where "solve (new_SMTSolverCommand ''eld'') ?E ''smt-query'' ''(check-sat)'' empty_world
      = Some (Inr (Result True (join (filter (\<lambda>l. l \<noteq> []) [''unsat'', [], ''(model)''])
                [CHR 0x0A])), w')"
    by blast
  then have full: "map_option fst (solve (new_SMTSolverCommand ''eld'') ?E ''smt-query''
      ''(check-sat)'' empty_world) = Some (Inr (Result True (''unsat'' @ [CHR 0x0A] @ ''(model)'')))"
    by simp
  from solve_returns_the_nonempty_lines [OF k' t' b' l' e' r' x', of "new_SMTSolverCommand ''eld''"]
  obtain w'' where "solve (new_SMTSolverCommand ''eld'') ?F ''smt-query'' ''(check-sat)'' empty_world
      = Some (Inr (Result True (join (filter (\<lambda>l. l \<noteq> []) []) [CHR 0x0A])), w'')"
    by blast
  then have none: "map_option fst (solve (new_SMTSolverCommand ''eld'') ?F ''smt-query''
      ''(check-sat)'' empty_world) = Some (Inr (Result True []))"
    by simp
  from k e r3 x full e' r0 none show ?thesis
    by blast
qed

text \<open>
  The claim as stated fails at a child that writes a line and then neither exits nor
  closes its output (\<open>solve\<close> does not return), and at a child that is read to the end
  and cannot be waited for (the result is a failure).
\<close>

theorem solve_without_a_result_for_emitted_lines:
  "getline (stalled_child [''sat'']) 0 = Line ''sat''
   \<and> solve (new_SMTSolverCommand ''eld'') (linux_env (stalled_child [''sat''])) ''smt-query''
        ''(check-sat)'' empty_world = None
   \<and> getline (unreapable_child [''sat'']) 0 = Line ''sat''
   \<and> map_option fst (solve (new_SMTSolverCommand ''eld'') (linux_env (unreapable_child [''sat'']))
        ''smt-query'' ''(check-sat)'' empty_world)
     = Some (Inr (Result False ''Unknown exception in SMTQuery callback: waitpid(2) failed''))"
  by (simp add: read_lines.simps stalled_child_def unreapable_child_def solve_unfold linux_unfold)



subsection \<open>C7: the dispatcher forwards\<close>

text \<open>
  Claim C7. Called with the identifier of \<open>ReadFile\<close>, the callback is the file reader's
  \<open>readFile\<close> on the same kind and payload: the same outcome in the same world, whatever
  the solver backend is. Called with the identifier of \<open>SMTQuery\<close> (a string other than
  that of \<open>ReadFile\<close>), it is the solver backend's \<open>solve\<close>, whatever the file reader is.
\<close>

theorem callback_forwards_to_the_backend_of_the_kind:
  "callback this E (kindString E ReadFile) payload w
     = readFile (m_fileReader this) (kindString E ReadFile) payload w
   \<and> callback (this\<lparr>m_solver := other_solver\<rparr>) E (kindString E ReadFile) payload w
     = callback this E (kindString E ReadFile) payload w
   \<and> (kindString E SMTQuery \<noteq> kindString E ReadFile \<longrightarrow>
        callback this E (kindString E SMTQuery) payload w
          = solve (m_solver this) E (kindString E SMTQuery) payload w
        \<and> callback (this\<lparr>m_fileReader := other_reader\<rparr>) E (kindString E SMTQuery) payload w
          = callback this E (kindString E SMTQuery) payload w)"
  by (simp add: callback_def solver_def)

theorem callback_forwards_to_the_backend_of_the_kind_witness:
  "kindString (linux_env (scripted_child [''sat''] 1)) SMTQuery
     \<noteq> kindString (linux_env (scripted_child [''sat''] 1)) ReadFile
   \<and> callback (new_UniversalCallback stub_reader (new_SMTSolverCommand ''eld''))
        (linux_env (scripted_child [''sat''] 1)) ''smt-query'' ''(check-sat)'' empty_world
     = solve (new_SMTSolverCommand ''eld'') (linux_env (scripted_child [''sat''] 1))
        ''smt-query'' ''(check-sat)'' empty_world
   \<and> callback (new_UniversalCallback stub_reader (new_SMTSolverCommand ''eld''))
        (linux_env (scripted_child [''sat''] 1)) ''source'' ''a.sol'' empty_world
     = Some (Inr (Result True ''contract C {}''), empty_world)"
  using callback_forwards_to_the_backend_of_the_kind
          [of "new_UniversalCallback stub_reader (new_SMTSolverCommand ''eld'')"
              "linux_env (scripted_child [''sat''] 1)" "''a.sol''" empty_world]
        callback_forwards_to_the_backend_of_the_kind
          [of "new_UniversalCallback stub_reader (new_SMTSolverCommand ''eld'')"
              "linux_env (scripted_child [''sat''] 1)" "''(check-sat)''" empty_world]
  by (simp add: linux_env_def kind_ids_def new_UniversalCallback_def stub_reader_def)

subsection \<open>C8: the dispatcher and an unknown kind\<close>

text \<open>
  Claim C8. For every kind string that is the identifier of neither kind and every
  payload, the callback returns no result: the \<^verbatim>\<open>InternalCompilerError\<close> of its assertion
  leaves it, and neither backend has touched the world.
\<close>

theorem callback_unknown_kind_throws:
  "kind \<noteq> kindString E ReadFile \<Longrightarrow> kind \<noteq> kindString E SMTQuery \<Longrightarrow>
   callback this E kind payload w = Some (Inl (InternalCompilerError ''Unknown callback kind.''), w)"
  by (simp add: callback_def solAssert_def)

theorem callback_unknown_kind_throws_witness:
  "''ipfs'' \<noteq> kindString (linux_env (scripted_child [''sat''] 1)) ReadFile
   \<and> ''ipfs'' \<noteq> kindString (linux_env (scripted_child [''sat''] 1)) SMTQuery
   \<and> callback (new_UniversalCallback stub_reader (new_SMTSolverCommand ''eld''))
        (linux_env (scripted_child [''sat''] 1)) ''ipfs'' ''Qm'' empty_world
     = Some (Inl (InternalCompilerError ''Unknown callback kind.''), empty_world)"
proof -
  have h1: "''ipfs'' \<noteq> kindString (linux_env (scripted_child [''sat''] 1)) ReadFile"
    and h2: "''ipfs'' \<noteq> kindString (linux_env (scripted_child [''sat''] 1)) SMTQuery"
    by (simp_all add: linux_env_def kind_ids_def)
  from callback_unknown_kind_throws [OF h1 h2] h1 h2 show ?thesis
    by simp
qed

subsection \<open>C9: the query file at the moment the solver starts\<close>

text \<open>
  Claim C9 says that the full query is in the file before the solver is started, so that
  each of two calls in sequence hands its own query to its own process. The stream is
  neither flushed nor closed before the child is constructed; it is destroyed when
  \<open>solve\<close> is left. On a machine whose file buffer keeps a short insertion, the file is
  empty when the child is started, in the first call and again in the second.
\<close>

theorem solve_spawns_before_the_query_is_on_disk:
  "map_option (trace \<circ> snd) (solve (new_SMTSolverCommand ''eld'')
      (linux_env (scripted_child [''sat''] 1)) ''smt-query'' ''(check-sat)'' empty_world)
     = Some [Search ''eld'',
             Spawn ''/usr/bin/eld'' [''-ssol'', ''-scex'', ''/tmp/query.smt2''] (Some []), Reap]
   \<and> map_option (trace \<circ> snd \<circ> snd) (solve_twice (new_SMTSolverCommand ''eld'')
      (linux_env (scripted_child [''sat''] 1)) ''smt-query'' ''(check-sat)'' ''(exit)'' empty_world)
     = Some [Search ''eld'',
             Spawn ''/usr/bin/eld'' [''-ssol'', ''-scex'', ''/tmp/query.smt2''] (Some []), Reap,
             Search ''eld'',
             Spawn ''/usr/bin/eld'' [''-ssol'', ''-scex'', ''/tmp/query.smt2''] (Some []), Reap]"
  by (simp add: read_lines.simps solve_twice_def solve_unfold linux_unfold)

subsection \<open>C10: the solver command is not consulted\<close>

text \<open>
  Claim C10. Two backends constructed with any two command strings give the same
  outcome of \<open>solve\<close> on the same kind, query, environment and world; and whatever the
  command string, the only name \<open>solve\<close> searches the path for is \<^verbatim>\<open>eld\<close>.
\<close>

theorem solve_ignores_the_solver_command:
  "solve (new_SMTSolverCommand cmd1) E kind query w = solve (new_SMTSolverCommand cmd2) E kind query w
   \<and> (\<forall>r w'. solve (new_SMTSolverCommand cmd1) E kind query w = Some (r, w') \<longrightarrow>
        (\<exists>evs. trace w' = trace w @ evs \<and> (\<forall>name. Search name \<in> set evs \<longrightarrow> name = ''eld'')))"
proof (intro conjI allI impI)
  show "solve (new_SMTSolverCommand cmd1) E kind query w
        = solve (new_SMTSolverCommand cmd2) E kind query w"
    by (simp add: solve_def solve_try_def)
next
  fix r w'
  assume "solve (new_SMTSolverCommand cmd1) E kind query w = Some (r, w')"
  then obtain r' where "solve_try (new_SMTSolverCommand cmd1) E kind query w = Some (r', w')"
    by (blast dest: solve_from_try)
  then show "\<exists>evs. trace w' = trace w @ evs \<and> (\<forall>name. Search name \<in> set evs \<longrightarrow> name = ''eld'')"
    by (rule solve_try_events)
qed

theorem solve_ignores_the_solver_command_witness:
  "solve (new_SMTSolverCommand ''z3'') (linux_env (scripted_child [''sat''] 1)) ''smt-query''
      ''(check-sat)'' empty_world
   = solve (new_SMTSolverCommand ''cvc5 --lang smt2'') (linux_env (scripted_child [''sat''] 1))
      ''smt-query'' ''(check-sat)'' empty_world
   \<and> map_option (trace \<circ> snd) (solve (new_SMTSolverCommand ''z3'')
        (linux_env (scripted_child [''sat''] 1)) ''smt-query'' ''(check-sat)'' empty_world)
     = Some [Search ''eld'',
             Spawn ''/usr/bin/eld'' [''-ssol'', ''-scex'', ''/tmp/query.smt2''] (Some []), Reap]"
proof -
  have "map_option (trace \<circ> snd) (solve (new_SMTSolverCommand ''z3'')
        (linux_env (scripted_child [''sat''] 1)) ''smt-query'' ''(check-sat)'' empty_world)
     = Some [Search ''eld'',
             Spawn ''/usr/bin/eld'' [''-ssol'', ''-scex'', ''/tmp/query.smt2''] (Some []), Reap]"
    by (simp add: read_lines.simps solve_unfold linux_unfold)
  with solve_ignores_the_solver_command
         [of "''z3''" "linux_env (scripted_child [''sat''] 1)" "''smt-query''" "''(check-sat)''"
             empty_world "''cvc5 --lang smt2''"]
  show ?thesis
    by blast
qed

end
